theory Spec2Isabelle
  imports Main
begin

section \<open>The payload handler base object\<close>

text \<open>
  A shallow embedding of \<^verbatim>\<open>pyanaconda/modules/payload/base/handler_base.py\<close>: the class
  \<^verbatim>\<open>PayloadHandlerBase\<close> with its constructor, the \<^verbatim>\<open>sources\<close> property,
  \<^verbatim>\<open>set_sources\<close> and \<^verbatim>\<open>has_source\<close>.

  Python lists are mutable objects that are passed and stored by reference, and the
  handler stores and hands out such references. Lists therefore live in an explicit
  store, and the handler keeps an address.
\<close>

subsection \<open>Data\<close>

type_synonym addr = nat

text \<open>
  A source, as far as the handler looks at it: the attribute \<^verbatim>\<open>source.type\<close> and the
  answer of \<^verbatim>\<open>source.is_ready()\<close>. The enumeration of source types is declared outside
  this file, so it is the type parameter \<open>'t\<close>.
\<close>

record 't source =
  type :: 't
  is_ready :: bool

text \<open>The two exceptions \<^verbatim>\<open>set_sources\<close> raises; the first carries the type it formats
  into its message.\<close>

datatype 't error = IncompatibleSourceError 't | SourceSetupError

text \<open>
  What the handler does to the outside: the call of \<^verbatim>\<open>log.debug\<close> with the list it is
  given, and the emission of the signal \<^verbatim>\<open>sources_changed\<close>. An emission is recorded with
  what the \<^verbatim>\<open>sources\<close> property of the handler returns at that moment (the reference and
  the content of the list behind it), which is what a callback run by the emission sees.
\<close>

datatype 't event =
    Log_debug "'t source list"
  | Emit addr "'t source list"

text \<open>The store of list objects, the next address a new list gets, and the events so far.\<close>

record 't world =
  heap :: "addr \<Rightarrow> 't source list"
  next_addr :: addr
  trace :: "'t event list"

text \<open>
  The handler object: \<^verbatim>\<open>self._sources\<close> is the field \<open>sources_field\<close>. The abstract
  property \<^verbatim>\<open>supported_source_types\<close> is what the concrete subclass returns, a list of
  source types; no method of the base class assigns it.
\<close>

record 't handler =
  supported_source_types :: "'t list"
  sources_field :: addr

subsection \<open>Operations\<close>

text \<open>The expression \<^verbatim>\<open>[]\<close>: a new, empty list object at an address not handed out before.\<close>

definition new_list :: "'t world \<Rightarrow> addr \<times> 't world" where
  "new_list w =
     (next_addr w, w\<lparr>heap := (heap w)(next_addr w := []), next_addr := Suc (next_addr w)\<rparr>)"

text \<open>
  \<^verbatim>\<open>__init__\<close>: \<^verbatim>\<open>self._sources = []\<close> and a new signal, which no one has emitted yet.
  The argument is the value of the abstract property in the concrete subclass.
\<close>

definition init :: "'t list \<Rightarrow> 't world \<Rightarrow> 't handler \<times> 't world" where
  "init supported w =
     (case new_list w of
        (a, w') \<Rightarrow> (\<lparr>supported_source_types = supported, sources_field = a\<rparr>, w'))"

text \<open>The property \<^verbatim>\<open>sources\<close>: \<^verbatim>\<open>return self._sources\<close>.\<close>

definition sources :: "'t handler \<Rightarrow> addr" where
  "sources self = sources_field self"

text \<open>
  The loop at the head of \<^verbatim>\<open>set_sources\<close>: it walks the new list in order and raises at
  the first element whose type is not in \<^verbatim>\<open>self.supported_source_types\<close>.
\<close>

fun check_types :: "'t list \<Rightarrow> 't source list \<Rightarrow> 't error option" where
  "check_types supported [] = None"
| "check_types supported (s # ss) =
     (if type s \<notin> set supported then Some (IncompatibleSourceError (type s))
      else check_types supported ss)"

text \<open>\<^verbatim>\<open>log.debug("New sources %s was added.", sources)\<close>.\<close>

definition log_debug :: "'t source list \<Rightarrow> 't world \<Rightarrow> 't world" where
  "log_debug xs w = w\<lparr>trace := trace w @ [Log_debug xs]\<rparr>"

text \<open>
  Modelled from the spec: the class \<^verbatim>\<open>Signal\<close> of \<^verbatim>\<open>pyanaconda.core.signal\<close> is not part
  of this file. The spec describes \<^verbatim>\<open>sources_changed\<close> as a notification channel whose
  emission synchronously invokes the registered observers with no payload. One emission
  is one \<open>Emit\<close> event, holding what an observer reading the handler's \<^verbatim>\<open>sources\<close> gets.
\<close>

definition emit :: "'t handler \<Rightarrow> 't world \<Rightarrow> 't world" where
  "emit self w = w\<lparr>trace := trace w @ [Emit (sources self) (heap w (sources self))]\<rparr>"

text \<open>
  \<^verbatim>\<open>set_sources(self, sources)\<close>. The argument is a reference to a list. The result is the
  outcome (\<open>Inl\<close> the exception raised, \<open>Inr ()\<close> a normal return) together with the
  handler and the world as the call leaves them, also when it raises.
\<close>

definition set_sources ::
  "'t handler \<Rightarrow> addr \<Rightarrow> 't world \<Rightarrow> ('t error + unit) \<times> 't handler \<times> 't world" where
  "set_sources self srcs w =
     (case check_types (supported_source_types self) (heap w srcs) of
        Some e \<Rightarrow> (Inl e, self, w)
      | None \<Rightarrow>
          if list_ex is_ready (heap w (sources self)) then (Inl SourceSetupError, self, w)
          else
            let self' = self\<lparr>sources_field := srcs\<rparr>;
                w' = log_debug (heap w srcs) w
            in (Inr (), self', emit self' w'))"

text \<open>\<^verbatim>\<open>has_source\<close>: \<^verbatim>\<open>return bool(self.sources)\<close>, true for a list that is not empty.\<close>

definition has_source :: "'t handler \<Rightarrow> 't world \<Rightarrow> bool" where
  "has_source self w = (heap w (sources self) \<noteq> [])"

text \<open>\<^verbatim>\<open>list.append\<close> of Python, as a holder of a list reference may call it.\<close>

definition list_append :: "addr \<Rightarrow> 't source \<Rightarrow> 't world \<Rightarrow> 't world" where
  "list_append a s w = w\<lparr>heap := (heap w)(a := heap w a @ [s])\<rparr>"

subsection \<open>Observing the events\<close>

text \<open>Whether an event is an emission of \<^verbatim>\<open>sources_changed\<close>.\<close>

fun is_emit :: "'t event \<Rightarrow> bool" where
  "is_emit (Emit a xs) = True"
| "is_emit (Log_debug xs) = False"

subsection \<open>Sequences of calls\<close>






text \<open>Every source in the list the handler holds has a type the handler supports.\<close>

definition all_supported :: "'t handler \<times> 't world \<Rightarrow> bool" where
  "all_supported st =
     list_all (\<lambda>s. type s \<in> set (supported_source_types (fst st)))
       (heap (snd st) (sources (fst st)))"

subsection \<open>Concrete handlers and worlds\<close>

text \<open>
  Source types are numbered here. The handler \<open>demo_handler\<close> supports type 1 only and holds
  the list at address 0. In \<open>idle_world\<close> that list holds one source that is not ready, in
  \<open>ready_world\<close> one that is. The other lists are the same in both: an unsupported source
  at 1, the empty list at 2, two supported and ready sources at 3, a list with two
  unsupported sources (types 3 and 2, in this order) at 4, and two supported sources that
  are not ready at 5.
\<close>

definition empty_heap :: "addr \<Rightarrow> 't source list" where
  "empty_heap = (\<lambda>a. [])"

definition empty_world :: "'t world" where
  "empty_world = \<lparr>heap = empty_heap, next_addr = 0, trace = []\<rparr>"

definition demo_handler :: "nat handler" where
  "demo_handler = \<lparr>supported_source_types = [1], sources_field = 0\<rparr>"

definition demo_lists :: "addr \<Rightarrow> nat source list" where
  "demo_lists = empty_heap
     (1 := [\<lparr>type = 2, is_ready = False\<rparr>],
      2 := [],
      3 := [\<lparr>type = 1, is_ready = True\<rparr>, \<lparr>type = 1, is_ready = True\<rparr>],
      4 := [\<lparr>type = 1, is_ready = True\<rparr>, \<lparr>type = 3, is_ready = False\<rparr>,
            \<lparr>type = 2, is_ready = False\<rparr>],
      5 := [\<lparr>type = 1, is_ready = False\<rparr>, \<lparr>type = 1, is_ready = False\<rparr>])"

definition idle_world :: "nat world" where
  "idle_world =
     \<lparr>heap = demo_lists(0 := [\<lparr>type = 1, is_ready = False\<rparr>]), next_addr = 6, trace = []\<rparr>"

definition ready_world :: "nat world" where
  "ready_world =
     \<lparr>heap = demo_lists(0 := [\<lparr>type = 1, is_ready = True\<rparr>]), next_addr = 6, trace = []\<rparr>"

text \<open>A handler that supports type 1, just constructed in a world without any list.\<close>

definition fresh_handler :: "nat handler" where
  "fresh_handler = fst (init [1] empty_world)"

definition fresh_world :: "nat world" where
  "fresh_world = snd (init [1] empty_world)"

lemmas demo_defs =
  demo_handler_def demo_lists_def idle_world_def ready_world_def empty_heap_def
  empty_world_def fresh_handler_def fresh_world_def

section \<open>The type check and the three ways a call ends\<close>

lemma check_types_None_iff:
  "check_types supported xs = None \<longleftrightarrow> (\<forall>s\<in>set xs. type s \<in> set supported)"
  by (induction xs) auto

lemma check_types_Some:
  "check_types supported xs = Some e \<Longrightarrow>
     \<exists>t. t \<in> type ` set xs \<and> t \<notin> set supported \<and> e = IncompatibleSourceError t"
  by (induction xs) (auto split: if_splits)

lemma check_types_map_type:
  "map type xs = map type ys \<Longrightarrow> check_types supported xs = check_types supported ys"
proof (induction xs arbitrary: ys)
  case Nil
  then show ?case by simp
next
  case (Cons x xs)
  then obtain y ys' where "ys = y # ys'" "type x = type y" "map type xs = map type ys'"
    by (cases ys) auto
  with Cons.IH [of ys'] show ?case by simp
qed

lemma set_sources_rejects_type:
  assumes "check_types (supported_source_types self) (heap w srcs) = Some e"
  shows "set_sources self srcs w = (Inl e, self, w)"
  using assms by (simp add: set_sources_def)

lemma set_sources_rejects_ready:
  assumes "check_types (supported_source_types self) (heap w srcs) = None"
      and "list_ex is_ready (heap w (sources self))"
  shows "set_sources self srcs w = (Inl SourceSetupError, self, w)"
  using assms by (simp add: set_sources_def)

lemma set_sources_accepts:
  assumes "check_types (supported_source_types self) (heap w srcs) = None"
      and "\<not> list_ex is_ready (heap w (sources self))"
  shows "set_sources self srcs w =
           (Inr (), self\<lparr>sources_field := srcs\<rparr>,
            w\<lparr>trace := trace w @ [Log_debug (heap w srcs), Emit srcs (heap w srcs)]\<rparr>)"
  using assms by (simp add: set_sources_def Let_def emit_def log_debug_def sources_def)

section \<open>Replacing the sources\<close>

text \<open>
  C1, as the code has it. When a source the handler holds is ready, every call of
  \<^verbatim>\<open>set_sources\<close> raises and leaves the handler and the world, so also the sources, as
  they were. The exception is \<^verbatim>\<open>SourceSetupError\<close> when every type in the new list is
  supported, and \<^verbatim>\<open>IncompatibleSourceError\<close> when some type is not: the type check comes
  first.
\<close>

theorem set_sources_ready_conflict:
  assumes "list_ex is_ready (heap w (sources self))"
  shows "\<exists>e. set_sources self srcs w = (Inl e, self, w) \<and>
     ((\<forall>s\<in>set (heap w srcs). type s \<in> set (supported_source_types self))
        \<longrightarrow> e = SourceSetupError) \<and>
     ((\<exists>s\<in>set (heap w srcs). type s \<notin> set (supported_source_types self))
        \<longrightarrow> (\<exists>t. e = IncompatibleSourceError t))"
proof (cases "check_types (supported_source_types self) (heap w srcs)")
  case None
  then have "set_sources self srcs w = (Inl SourceSetupError, self, w)"
    using assms by (rule set_sources_rejects_ready)
  moreover from None
  have "\<forall>s\<in>set (heap w srcs). type s \<in> set (supported_source_types self)"
    by (simp add: check_types_None_iff)
  ultimately show ?thesis by auto
next
  case (Some e)
  then have "set_sources self srcs w = (Inl e, self, w)"
    by (rule set_sources_rejects_type)
  moreover from Some have "\<exists>t. e = IncompatibleSourceError t"
    by (auto dest: check_types_Some)
  moreover from Some
  have "\<not> (\<forall>s\<in>set (heap w srcs). type s \<in> set (supported_source_types self))"
    by (auto dest: check_types_Some)
  ultimately show ?thesis by auto
qed

text \<open>
  The handler of \<open>ready_world\<close> holds a ready source; given the list at address 3, whose
  types are supported, the call raises \<^verbatim>\<open>SourceSetupError\<close> and changes nothing.
\<close>

theorem set_sources_ready_conflict_witness:
  "list_ex is_ready (heap ready_world (sources demo_handler)) \<and>
   set_sources demo_handler 3 ready_world = (Inl SourceSetupError, demo_handler, ready_world)"
proof -
  have h: "list_ex is_ready (heap ready_world (sources demo_handler))"
    by (simp add: demo_defs sources_def)
  have ok: "\<forall>s\<in>set (heap ready_world 3). type s \<in> set (supported_source_types demo_handler)"
    by (simp add: demo_defs)
  from set_sources_ready_conflict [OF h, of 3] ok h show ?thesis by auto
qed

text \<open>
  C1 as stated fails: the same handler, given the list at address 1 with a source of the
  unsupported type 2, raises \<^verbatim>\<open>IncompatibleSourceError\<close>, not \<^verbatim>\<open>SourceSetupError\<close>.
\<close>

theorem set_sources_ready_conflict_counterexample:
  "list_ex is_ready (heap ready_world (sources demo_handler)) \<and>
   fst (set_sources demo_handler 1 ready_world) = Inl (IncompatibleSourceError 2) \<and>
   fst (set_sources demo_handler 1 ready_world) \<noteq> Inl SourceSetupError"
  by (simp add: demo_defs sources_def set_sources_def)

text \<open>
  C3. When no source the handler holds is ready and every type in the new list is
  supported, \<^verbatim>\<open>set_sources\<close> returns normally, \<^verbatim>\<open>sources\<close> is then the new list (the same
  reference, with its content as it was passed), and the events of the call hold exactly
  one emission of \<^verbatim>\<open>sources_changed\<close>.
\<close>

theorem set_sources_success:
  assumes "\<not> list_ex is_ready (heap w (sources self))"
      and "\<forall>s\<in>set (heap w srcs). type s \<in> set (supported_source_types self)"
  shows "\<exists>self' w' evs. set_sources self srcs w = (Inr (), self', w') \<and>
           sources self' = srcs \<and> heap w' (sources self') = heap w srcs \<and>
           trace w' = trace w @ evs \<and> length (filter is_emit evs) = 1"
proof -
  from assms(2) have "check_types (supported_source_types self) (heap w srcs) = None"
    by (simp add: check_types_None_iff)
  from set_sources_accepts [OF this assms(1)] show ?thesis
    by (simp add: sources_def)
qed

text \<open>The handler of \<open>idle_world\<close> takes the list at address 5.\<close>

theorem set_sources_success_witness:
  "\<not> list_ex is_ready (heap idle_world (sources demo_handler)) \<and>
   fst (set_sources demo_handler 5 idle_world) = Inr () \<and>
   sources (fst (snd (set_sources demo_handler 5 idle_world))) = 5 \<and>
   length (filter is_emit (trace (snd (snd (set_sources demo_handler 5 idle_world))))) = 1"
proof -
  have h: "\<not> list_ex is_ready (heap idle_world (sources demo_handler))"
    by (simp add: demo_defs sources_def)
  have ok: "\<forall>s\<in>set (heap idle_world 5). type s \<in> set (supported_source_types demo_handler)"
    by (simp add: demo_defs)
  have t: "trace idle_world = []"
    by (simp add: demo_defs)
  from set_sources_success [OF h ok] obtain self' w' evs where
    "set_sources demo_handler 5 idle_world = (Inr (), self', w')" "sources self' = 5"
    "trace w' = trace idle_world @ evs" "length (filter is_emit evs) = 1"
    by blast
  with h t show ?thesis by simp
qed

text \<open>
  C4. The type check over the new list comes before the readiness check over the held
  sources. When the new list has an unsupported type and a held source is ready, the
  exception is \<^verbatim>\<open>IncompatibleSourceError\<close> with an unsupported type; and
  \<^verbatim>\<open>SourceSetupError\<close> is raised only when every type of the new list passed the check
  and a held source is ready.
\<close>

theorem set_sources_validation_order:
  "(list_ex is_ready (heap w (sources self)) \<and>
    (\<exists>s\<in>set (heap w srcs). type s \<notin> set (supported_source_types self))
      \<longrightarrow> (\<exists>t. t \<notin> set (supported_source_types self) \<and>
               fst (set_sources self srcs w) = Inl (IncompatibleSourceError t))) \<and>
   (fst (set_sources self srcs w) = Inl SourceSetupError
      \<longrightarrow> (\<forall>s\<in>set (heap w srcs). type s \<in> set (supported_source_types self)) \<and>
          list_ex is_ready (heap w (sources self)))"
proof (cases "check_types (supported_source_types self) (heap w srcs)")
  case None
  then have ok: "\<forall>s\<in>set (heap w srcs). type s \<in> set (supported_source_types self)"
    by (simp add: check_types_None_iff)
  show ?thesis
  proof (cases "list_ex is_ready (heap w (sources self))")
    case True
    with ok show ?thesis by auto
  next
    case False
    with None have "fst (set_sources self srcs w) = Inr ()"
      by (simp add: set_sources_accepts)
    with ok show ?thesis by auto
  qed
next
  case (Some e)
  then obtain t where t: "t \<notin> set (supported_source_types self)"
      "e = IncompatibleSourceError t"
    by (auto dest: check_types_Some)
  from Some have "fst (set_sources self srcs w) = Inl e"
    by (simp add: set_sources_rejects_type)
  with t show ?thesis by auto
qed

text \<open>
  In \<open>ready_world\<close> the list at address 4 fails both checks, and the call raises
  \<^verbatim>\<open>IncompatibleSourceError\<close>; the empty list at address 2 passes the type check, and the
  call raises \<^verbatim>\<open>SourceSetupError\<close>.
\<close>

theorem set_sources_validation_order_witness:
  "list_ex is_ready (heap ready_world (sources demo_handler)) \<and>
   list_ex (\<lambda>s. type s \<notin> set (supported_source_types demo_handler)) (heap ready_world 4) \<and>
   fst (set_sources demo_handler 4 ready_world) = Inl (IncompatibleSourceError 3) \<and>
   fst (set_sources demo_handler 2 ready_world) = Inl SourceSetupError \<and>
   list_all (\<lambda>s. type s \<in> set (supported_source_types demo_handler)) (heap ready_world 2)"
proof -
  have h: "list_ex is_ready (heap ready_world (sources demo_handler))"
    by (simp add: demo_defs sources_def)
  have bad: "\<exists>s\<in>set (heap ready_world 4). type s \<notin> set (supported_source_types demo_handler)"
    by (simp add: demo_defs)
  have r4: "fst (set_sources demo_handler 4 ready_world) = Inl (IncompatibleSourceError 3)"
    by (simp add: demo_defs sources_def set_sources_def)
  have r2: "fst (set_sources demo_handler 2 ready_world) = Inl SourceSetupError"
    by (simp add: demo_defs sources_def set_sources_def)
  from set_sources_validation_order [of ready_world demo_handler 2] r2
  have "\<forall>s\<in>set (heap ready_world 2). type s \<in> set (supported_source_types demo_handler)"
    by blast
  with h bad r4 r2 show ?thesis
    by (simp add: list_all_iff list_ex_iff)
qed

text \<open>
  C5. For any handler, whatever its held sources are, a new list with a source of an
  unsupported type makes \<^verbatim>\<open>set_sources\<close> raise \<^verbatim>\<open>IncompatibleSourceError\<close> with an
  unsupported type, and \<^verbatim>\<open>sources\<close> stays the same reference with the same content.
\<close>

theorem set_sources_incompatible:
  assumes "\<exists>s\<in>set (heap w srcs). type s \<notin> set (supported_source_types self)"
  shows "\<exists>t self' w'. set_sources self srcs w = (Inl (IncompatibleSourceError t), self', w') \<and>
           t \<notin> set (supported_source_types self) \<and>
           sources self' = sources self \<and>
           heap w' (sources self') = heap w (sources self)"
proof -
  from assms have "check_types (supported_source_types self) (heap w srcs) \<noteq> None"
    by (simp add: check_types_None_iff)
  then obtain e where e: "check_types (supported_source_types self) (heap w srcs) = Some e"
    by auto
  then obtain t where "t \<notin> set (supported_source_types self)"
      "e = IncompatibleSourceError t"
    by (auto dest: check_types_Some)
  with set_sources_rejects_type [OF e] show ?thesis by auto
qed

text \<open>
  The handler of \<open>idle_world\<close>, given the list at address 1: the exception names a type
  outside the supported ones, and the held list is the one held before.
\<close>

theorem set_sources_incompatible_witness:
  "list_ex (\<lambda>s. type s \<notin> set (supported_source_types demo_handler)) (heap idle_world 1) \<and>
   fst (set_sources demo_handler 1 idle_world) = Inl (IncompatibleSourceError 2) \<and>
   sources (fst (snd (set_sources demo_handler 1 idle_world))) = 0 \<and>
   heap (snd (snd (set_sources demo_handler 1 idle_world))) 0 =
     [\<lparr>type = 1, is_ready = False\<rparr>]"
proof -
  have bad: "\<exists>s\<in>set (heap idle_world 1). type s \<notin> set (supported_source_types demo_handler)"
    by (simp add: demo_defs)
  have r: "fst (set_sources demo_handler 1 idle_world) = Inl (IncompatibleSourceError 2)"
    by (simp add: demo_defs set_sources_def)
  have s: "sources demo_handler = 0" "heap idle_world 0 = [\<lparr>type = 1, is_ready = False\<rparr>]"
    by (simp_all add: demo_defs sources_def)
  from set_sources_incompatible [OF bad] obtain t self' w' where
    "set_sources demo_handler 1 idle_world = (Inl (IncompatibleSourceError t), self', w')"
    "sources self' = sources demo_handler"
    "heap w' (sources self') = heap idle_world (sources demo_handler)"
    by blast
  with bad r s show ?thesis by (simp add: list_ex_iff)
qed

text \<open>
  C6. When \<^verbatim>\<open>set_sources\<close> raises, with either exception, the handler and the world
  are the ones before the call: \<^verbatim>\<open>sources\<close> is the same reference with the same content,
  and no event was added, so \<^verbatim>\<open>sources_changed\<close> was not emitted.
\<close>

theorem set_sources_failure_atomic:
  assumes "set_sources self srcs w = (Inl e, self', w')"
  shows "self' = self \<and> w' = w \<and> sources self' = sources self \<and>
         heap w' (sources self') = heap w (sources self) \<and>
         trace w' = trace w"
proof (cases "check_types (supported_source_types self) (heap w srcs)")
  case None
  show ?thesis
  proof (cases "list_ex is_ready (heap w (sources self))")
    case True
    with None assms show ?thesis by (simp add: set_sources_rejects_ready)
  next
    case False
    with None assms show ?thesis by (simp add: set_sources_accepts)
  qed
next
  case (Some e')
  with assms show ?thesis by (simp add: set_sources_rejects_type)
qed

text \<open>
  The handler of \<open>ready_world\<close>, given the empty list at address 2, raises
  \<^verbatim>\<open>SourceSetupError\<close>; the ready source is still attached and nothing was emitted.
\<close>

theorem set_sources_failure_atomic_witness:
  "fst (set_sources demo_handler 2 ready_world) = Inl SourceSetupError \<and>
   fst (snd (set_sources demo_handler 2 ready_world)) = demo_handler \<and>
   snd (snd (set_sources demo_handler 2 ready_world)) = ready_world \<and>
   trace (snd (snd (set_sources demo_handler 2 ready_world))) = trace ready_world"
proof -
  have r: "fst (set_sources demo_handler 2 ready_world) = Inl SourceSetupError"
    by (simp add: demo_defs sources_def set_sources_def)
  then have "set_sources demo_handler 2 ready_world =
      (Inl SourceSetupError, fst (snd (set_sources demo_handler 2 ready_world)),
       snd (snd (set_sources demo_handler 2 ready_world)))"
    by (metis prod.collapse)
  from set_sources_failure_atomic [OF this] r show ?thesis by simp
qed

text \<open>
  C8. When \<^verbatim>\<open>set_sources\<close> returns normally, the call adds two events, the log entry and
  then the emission of \<^verbatim>\<open>sources_changed\<close>, and the emission holds the reference and the
  content that \<^verbatim>\<open>sources\<close> has after the call, which are the new list: the signal is
  emitted after the assignment.
\<close>

theorem set_sources_emit_after_commit:
  assumes "set_sources self srcs w = (Inr (), self', w')"
  shows "sources self' = srcs \<and> heap w' (sources self') = heap w srcs \<and>
         trace w' = trace w @
           [Log_debug (heap w srcs), Emit (sources self') (heap w' (sources self'))]"
proof (cases "check_types (supported_source_types self) (heap w srcs)")
  case None
  show ?thesis
  proof (cases "list_ex is_ready (heap w (sources self))")
    case True
    with None assms show ?thesis by (simp add: set_sources_rejects_ready)
  next
    case False
    with None assms show ?thesis by (auto simp add: set_sources_accepts sources_def)
  qed
next
  case (Some e')
  with assms show ?thesis by (simp add: set_sources_rejects_type)
qed

text \<open>
  The handler of \<open>idle_world\<close> holds the list at address 0 and is given the one at
  address 3: the emission shows address 3 and its two sources.
\<close>

theorem set_sources_emit_after_commit_witness:
  "fst (set_sources demo_handler 3 idle_world) = Inr () \<and>
   sources demo_handler = 0 \<and>
   last (trace (snd (snd (set_sources demo_handler 3 idle_world)))) =
     Emit 3 [\<lparr>type = 1, is_ready = True\<rparr>, \<lparr>type = 1, is_ready = True\<rparr>]"
proof -
  let ?h = "fst (snd (set_sources demo_handler 3 idle_world))"
  let ?w = "snd (snd (set_sources demo_handler 3 idle_world))"
  have r: "fst (set_sources demo_handler 3 idle_world) = Inr ()"
    by (simp add: demo_defs sources_def set_sources_def Let_def)
  then have "set_sources demo_handler 3 idle_world = (Inr (), ?h, ?w)"
    by (metis prod.collapse)
  from set_sources_emit_after_commit [OF this]
  have a: "sources ?h = 3"
    and b: "heap ?w (sources ?h) = heap idle_world 3"
    and c: "trace ?w = trace idle_world @
              [Log_debug (heap idle_world 3), Emit (sources ?h) (heap ?w (sources ?h))]"
    by blast+
  from c have "last (trace ?w) = Emit (sources ?h) (heap ?w (sources ?h))"
    by simp
  then have "last (trace ?w) = Emit (sources ?h) (heap idle_world 3)"
    by (simp only: b)
  then have "last (trace ?w) = Emit 3 (heap idle_world 3)"
    by (simp only: a)
  moreover have "heap idle_world 3 =
      [\<lparr>type = 1, is_ready = True\<rparr>, \<lparr>type = 1, is_ready = True\<rparr>]"
    by (simp add: demo_defs)
  moreover have "sources demo_handler = 0"
    by (simp add: demo_defs sources_def)
  ultimately show ?thesis using r by simp
qed

text \<open>
  C9. When no source the handler holds is ready, \<^verbatim>\<open>set_sources\<close> with an empty list
  returns normally, whatever the supported types are, and \<^verbatim>\<open>has_source\<close> is then false;
  \<^verbatim>\<open>has_source\<close> is true exactly when the held list has an element.
\<close>

theorem set_sources_empty:
  assumes "\<not> list_ex is_ready (heap w (sources self))"
      and "heap w srcs = []"
  shows "\<exists>self' w'. set_sources self srcs w = (Inr (), self', w') \<and>
           \<not> has_source self' w' \<and>
           (\<forall>h v. has_source h v = (0 < length (heap v (sources h))))"
proof -
  from assms(2) have "check_types (supported_source_types self) (heap w srcs) = None"
    by simp
  from set_sources_accepts [OF this assms(1)] assms(2) show ?thesis
    by (simp add: has_source_def sources_def)
qed

text \<open>The handler of \<open>idle_world\<close> has a source; after taking the empty list at address 2
  it has none.\<close>

theorem set_sources_empty_witness:
  "\<not> list_ex is_ready (heap idle_world (sources demo_handler)) \<and>
   heap idle_world 2 = [] \<and>
   has_source demo_handler idle_world \<and>
   fst (set_sources demo_handler 2 idle_world) = Inr () \<and>
   \<not> has_source (fst (snd (set_sources demo_handler 2 idle_world)))
               (snd (snd (set_sources demo_handler 2 idle_world)))"
proof -
  have h: "\<not> list_ex is_ready (heap idle_world (sources demo_handler))"
    by (simp add: demo_defs sources_def)
  have e: "heap idle_world 2 = []"
    by (simp add: demo_defs)
  have b: "has_source demo_handler idle_world"
    by (simp add: demo_defs sources_def has_source_def)
  from set_sources_empty [OF h e] obtain self' w' where
    "set_sources demo_handler 2 idle_world = (Inr (), self', w')" "\<not> has_source self' w'"
    by blast
  with h e b show ?thesis by simp
qed

text \<open>
  C10. The outcome of \<^verbatim>\<open>set_sources\<close> depends on the new list through the types of its
  elements only: two new lists with the same types in the same order give the same
  outcome, whatever \<^verbatim>\<open>is_ready\<close> answers for their elements. So when no held source is
  ready and every type of the new list is supported, the call returns normally, with no
  condition on the readiness of the new elements.
\<close>

theorem set_sources_ignores_new_readiness:
  "(map type (heap w srcs) = map type (heap w srcs2)
      \<longrightarrow> fst (set_sources self srcs w) = fst (set_sources self srcs2 w)) \<and>
   (\<not> list_ex is_ready (heap w (sources self)) \<and>
    (\<forall>s\<in>set (heap w srcs). type s \<in> set (supported_source_types self))
      \<longrightarrow> fst (set_sources self srcs w) = Inr ())"
proof (intro conjI impI)
  assume "map type (heap w srcs) = map type (heap w srcs2)"
  then have "check_types (supported_source_types self) (heap w srcs) =
             check_types (supported_source_types self) (heap w srcs2)"
    by (rule check_types_map_type)
  then show "fst (set_sources self srcs w) = fst (set_sources self srcs2 w)"
    by (simp add: set_sources_def Let_def split: option.splits)
next
  assume a: "\<not> list_ex is_ready (heap w (sources self)) \<and>
    (\<forall>s\<in>set (heap w srcs). type s \<in> set (supported_source_types self))"
  then have "check_types (supported_source_types self) (heap w srcs) = None"
    by (simp add: check_types_None_iff)
  with a show "fst (set_sources self srcs w) = Inr ()"
    by (simp add: set_sources_accepts)
qed

text \<open>
  In \<open>idle_world\<close> the list at address 3 holds two ready sources and the list at address
  5 two sources of the same types that are not ready: the handler takes either.
\<close>

theorem set_sources_ignores_new_readiness_witness:
  "\<not> list_ex is_ready (heap idle_world (sources demo_handler)) \<and>
   list_all is_ready (heap idle_world 3) \<and>
   \<not> list_ex is_ready (heap idle_world 5) \<and>
   map type (heap idle_world 3) = map type (heap idle_world 5) \<and>
   fst (set_sources demo_handler 3 idle_world) = Inr () \<and>
   fst (set_sources demo_handler 5 idle_world) = Inr ()"
proof -
  have h: "\<not> list_ex is_ready (heap idle_world (sources demo_handler))"
    by (simp add: demo_defs sources_def)
  have ok: "\<forall>s\<in>set (heap idle_world 3). type s \<in> set (supported_source_types demo_handler)"
    by (simp add: demo_defs)
  have m: "map type (heap idle_world 3) = map type (heap idle_world 5)"
    by (simp add: demo_defs)
  have f: "list_all is_ready (heap idle_world 3)" "\<not> list_ex is_ready (heap idle_world 5)"
    by (simp_all add: demo_defs)
  from set_sources_ignores_new_readiness [of idle_world 3 3 demo_handler] h ok
  have r3: "fst (set_sources demo_handler 3 idle_world) = Inr ()"
    by blast
  from set_sources_ignores_new_readiness [of idle_world 3 5 demo_handler] m r3
  have "fst (set_sources demo_handler 5 idle_world) = Inr ()"
    by simp
  with h m f r3 show ?thesis by simp
qed

section \<open>The list the handler hands out\<close>

text \<open>
  C2, as the code has it. The property \<^verbatim>\<open>sources\<close> returns the reference the handler
  itself holds, not a copy of the list. So an append through the returned reference
  changes the list the handler holds: \<^verbatim>\<open>sources\<close> then has the appended element at its
  end, and \<^verbatim>\<open>has_source\<close> is true.
\<close>

theorem sources_returns_own_list:
  "sources self = sources_field self \<and>
   heap (list_append (sources self) s w) (sources self) = heap w (sources self) @ [s] \<and>
   has_source self (list_append (sources self) s w)"
  by (simp add: list_append_def has_source_def sources_def)

text \<open>
  C2 as stated fails. A handler that supports type 1 only is constructed and has no
  source. A caller reads \<^verbatim>\<open>sources\<close> and appends a source of type 2 to what it got: the
  handler now has a source, of a type it does not support, and \<^verbatim>\<open>set_sources\<close> was
  never called.
\<close>

theorem sources_read_only_counterexample:
  "\<not> has_source fresh_handler fresh_world \<and>
   has_source fresh_handler
     (list_append (sources fresh_handler) \<lparr>type = 2, is_ready = False\<rparr> fresh_world) \<and>
   heap (list_append (sources fresh_handler) \<lparr>type = 2, is_ready = False\<rparr> fresh_world)
     (sources fresh_handler) = [\<lparr>type = 2, is_ready = False\<rparr>] \<and>
   \<not> all_supported
     (fresh_handler,
      list_append (sources fresh_handler) \<lparr>type = 2, is_ready = False\<rparr> fresh_world)"
  by (simp add: demo_defs init_def new_list_def sources_def has_source_def list_append_def
      all_supported_def)

section \<open>The invariant of the held sources\<close>











end
